theory Spec2Isabelle
  imports Complex_Main "HOL-Library.Multiset"
begin

section \<open>JavaScript values of the request bodies\<close>

text \<open>
  The handlers of \<^verbatim>\<open>src/app/api/notes/route.ts\<close> read the fields of a parsed JSON body
  and test them with \<^verbatim>\<open>!x\<close>, \<^verbatim>\<open>x ?? ""\<close> and \<^verbatim>\<open>x === "manual"\<close>. A field may hold
  any JSON value, and a field that is absent reads as \<^verbatim>\<open>undefined\<close>. Of a number the
  handlers only observe whether it is zero, so numbers are integers here.
\<close>

datatype jsval =
    Undefined
  | Null
  | JBool bool
  | JNum int
  | JStr string
  | JArr "jsval list"
  | JObj "(string \<times> jsval) list"

text \<open>\<^verbatim>\<open>!x\<close> is \<open>\<not> truthy x\<close>.\<close>

fun truthy :: "jsval \<Rightarrow> bool" where
  "truthy Undefined = False"
| "truthy Null = False"
| "truthy (JBool b) = b"
| "truthy (JNum n) = (n \<noteq> 0)"
| "truthy (JStr s) = (s \<noteq> [])"
| "truthy (JArr xs) = True"
| "truthy (JObj kvs) = True"

text \<open>\<^verbatim>\<open>a ?? b\<close>: \<open>b\<close> when \<open>a\<close> is \<^verbatim>\<open>undefined\<close> or \<^verbatim>\<open>null\<close>, else \<open>a\<close>.\<close>

fun coalesce :: "jsval \<Rightarrow> jsval \<Rightarrow> jsval" where
  "coalesce Undefined b = b"
| "coalesce Null b = b"
| "coalesce a b = a"

text \<open>
  Destructuring (\<^verbatim>\<open>const { id, title } = body\<close>) throws a \<^verbatim>\<open>TypeError\<close> on
  \<^verbatim>\<open>null\<close> and \<^verbatim>\<open>undefined\<close>.
\<close>

fun nullish :: "jsval \<Rightarrow> bool" where
  "nullish Undefined = True"
| "nullish Null = True"
| "nullish v = False"

text \<open>
  Reading a property of the parsed body. When a JSON text repeats a key, the parser keeps
  the last value; a value that is not an object has none of the properties the handlers
  read.
\<close>

fun get :: "jsval \<Rightarrow> string \<Rightarrow> jsval" where
  "get (JObj kvs) k = (case map_of (rev kvs) k of Some v \<Rightarrow> v | None \<Rightarrow> Undefined)"
| "get b k = Undefined"

section \<open>The notes collection\<close>

text \<open>
  An \<^verbatim>\<open>ObjectId\<close> is kept as its hexadecimal string (what \<^verbatim>\<open>toString()\<close> gives); a
  \<^verbatim>\<open>Date\<close> as its milliseconds since the epoch. The document has the fields that
  \<^verbatim>\<open>POST\<close> inserts, and \<^verbatim>\<open>updatedAt\<close>, which only \<^verbatim>\<open>PATCH\<close> sets.
\<close>

type_synonym objectId = string

record Note =
  note_id :: objectId
  doctorId :: string
  title :: jsval
  source :: jsval
  contentHtml :: jsval
  ocrText :: jsval
  fileUrl :: jsval
  fileName :: jsval
  fileType :: jsval
  filePublicId :: jsval
  createdAt :: int
  updatedAt :: "int option"

text \<open>The collection in its natural (insertion) order.\<close>

type_synonym store = "Note list"

text \<open>\<^verbatim>\<open>findOne(q)\<close>: the first document that matches, or \<^verbatim>\<open>null\<close>.\<close>

definition findOne :: "(Note \<Rightarrow> bool) \<Rightarrow> store \<Rightarrow> Note option" where
  "findOne q s = find q s"

text \<open>\<^verbatim>\<open>updateOne(q, {$set: ...})\<close>: the first document that matches is updated.\<close>

fun updateOne :: "(Note \<Rightarrow> bool) \<Rightarrow> (Note \<Rightarrow> Note) \<Rightarrow> store \<Rightarrow> store" where
  "updateOne q f [] = []"
| "updateOne q f (n # ns) = (if q n then f n # ns else n # updateOne q f ns)"

text \<open>\<^verbatim>\<open>deleteOne(q)\<close>: the first document that matches is removed.\<close>

fun deleteOne :: "(Note \<Rightarrow> bool) \<Rightarrow> store \<Rightarrow> store" where
  "deleteOne q [] = []"
| "deleteOne q (n # ns) = (if q n then ns else n # deleteOne q ns)"

text \<open>
  The server keeps a unique index on \<^verbatim>\<open>_id\<close>: no two documents of a collection share
  their identifier.
\<close>

definition unique_ids :: "store \<Rightarrow> bool" where
  "unique_ids s = distinct (map note_id s)"

text \<open>The stored document with a given identifier.\<close>

definition lookup :: "objectId \<Rightarrow> store \<Rightarrow> Note option" where
  "lookup i s = find (\<lambda>n. note_id n = i) s"

section \<open>Requests, environment and results\<close>

text \<open>
  \<open>session_email\<close> is \<^verbatim>\<open>session?.user?.email\<close> (\<open>None\<close> when the chain gives
  \<^verbatim>\<open>undefined\<close> or \<^verbatim>\<open>null\<close>); \<open>body\<close> is what \<^verbatim>\<open>request.json()\<close> resolves to
  (\<open>None\<close> when the text is not JSON and the promise rejects).
\<close>

record request =
  session_email :: "string option"
  body :: "jsval option"

text \<open>
  What a handler takes from outside the repository: the driver's \<^verbatim>\<open>ObjectId\<close>
  constructor (\<open>None\<close> when it throws on its argument), the clock read by
  \<^verbatim>\<open>new Date()\<close>, and the identifier that \<^verbatim>\<open>insertOne\<close> gives the new document.
\<close>

record env =
  newObjectId :: "jsval \<Rightarrow> objectId option"
  now :: int
  insertedId :: objectId

text \<open>
  One element of the list that \<^verbatim>\<open>GET\<close> returns: the document spread
  (\<^verbatim>\<open>...note\<close>), with \<^verbatim>\<open>_id\<close> as a string and \<^verbatim>\<open>createdAt\<close> as an ISO string
  (kept here as the timestamp it renders) or \<^verbatim>\<open>null\<close>.
\<close>

record note_view =
  spread :: Note
  view_id :: string
  view_createdAt :: "int option"

datatype payload =
    ErrorMessage string
  | SuccessTrue
  | Id string
  | Notes "note_view list"

datatype exn = SyntaxError | TypeError | BSONError | MongoServerError

datatype result = Response nat payload | Thrown exn

text \<open>\<^verbatim>\<open>!session?.user?.email\<close> fails exactly for a non-empty string.\<close>

fun caller :: "request \<Rightarrow> string option" where
  "caller r = (case session_email r of
                 None \<Rightarrow> None
               | Some e \<Rightarrow> if e = [] then None else Some e)"

section \<open>The handlers\<close>

subsection \<open>GET\<close>

text \<open>
  \<^verbatim>\<open>.sort({ createdAt: -1 })\<close>. The server leaves the order of documents with equal
  \<^verbatim>\<open>createdAt\<close> open; here they keep the order of the collection, and no property below
  depends on it.
\<close>

definition sort_createdAt_desc :: "Note list \<Rightarrow> Note list" where
  "sort_createdAt_desc ns = sort_key (\<lambda>n. - createdAt n) ns"

text \<open>
  The \<^verbatim>\<open>map\<close> callback of \<^verbatim>\<open>GET\<close>. A stored \<^verbatim>\<open>createdAt\<close> is a \<^verbatim>\<open>Date\<close> object, which
  is truthy, so the \<^verbatim>\<open>null\<close> branch of the conditional is not taken.
\<close>

definition serialize :: "Note \<Rightarrow> note_view" where
  "serialize n = \<lparr>spread = n, view_id = note_id n, view_createdAt = Some (createdAt n)\<rparr>"

definition GET :: "request \<Rightarrow> store \<Rightarrow> result" where
  "GET r s =
     (case caller r of
        None \<Rightarrow> Response 401 (ErrorMessage ''Unauthorized'')
      | Some email \<Rightarrow>
          Response 200
            (Notes (map serialize
                      (sort_createdAt_desc (filter (\<lambda>n. doctorId n = email) s)))))"

subsection \<open>POST\<close>

definition POST :: "env \<Rightarrow> request \<Rightarrow> store \<Rightarrow> result \<times> store" where
  "POST e r s =
     (case caller r of
        None \<Rightarrow> (Response 401 (ErrorMessage ''Unauthorized''), s)
      | Some email \<Rightarrow>
          (case body r of
             None \<Rightarrow> (Thrown SyntaxError, s)
           | Some b \<Rightarrow>
               if nullish b then (Thrown TypeError, s)
               else if \<not> truthy (get b ''title'') \<or> \<not> truthy (get b ''source'')
               then (Response 400 (ErrorMessage ''Missing required fields.''), s)
               else if insertedId e \<in> set (map note_id s)
               then (Thrown MongoServerError, s)
               else
                 (Response 200 (Id (insertedId e)),
                  s @ [\<lparr>note_id = insertedId e,
                         doctorId = email,
                         title = get b ''title'',
                         source = get b ''source'',
                         contentHtml = coalesce (get b ''contentHtml'') (JStr ''''),
                         ocrText = coalesce (get b ''ocrText'') (JStr ''''),
                         fileUrl = coalesce (get b ''fileUrl'') (JStr ''''),
                         fileName = coalesce (get b ''fileName'') (JStr ''''),
                         fileType = coalesce (get b ''fileType'') (JStr ''''),
                         filePublicId = coalesce (get b ''filePublicId'') (JStr ''''),
                         createdAt = now e,
                         updatedAt = None\<rparr>])))"

subsection \<open>PATCH\<close>

text \<open>The \<^verbatim>\<open>$set\<close> document built from the existing note's \<^verbatim>\<open>source\<close>.\<close>

definition updateData :: "env \<Rightarrow> jsval \<Rightarrow> Note \<Rightarrow> Note \<Rightarrow> Note" where
  "updateData e b existingNote n =
     (if source existingNote = JStr ''manual''
      then n\<lparr>title := get b ''title'', updatedAt := Some (now e),
              contentHtml := coalesce (get b ''contentHtml'') (JStr '''')\<rparr>
      else n\<lparr>title := get b ''title'', updatedAt := Some (now e),
              ocrText := coalesce (get b ''ocrText'') (JStr '''')\<rparr>)"

definition PATCH :: "env \<Rightarrow> request \<Rightarrow> store \<Rightarrow> result \<times> store" where
  "PATCH e r s =
     (case caller r of
        None \<Rightarrow> (Response 401 (ErrorMessage ''Unauthorized''), s)
      | Some email \<Rightarrow>
          (case body r of
             None \<Rightarrow> (Thrown SyntaxError, s)
           | Some b \<Rightarrow>
               if nullish b then (Thrown TypeError, s)
               else if \<not> truthy (get b ''id'') \<or> \<not> truthy (get b ''title'')
               then (Response 400 (ErrorMessage ''Missing required fields.''), s)
               else
                 (case newObjectId e (get b ''id'') of
                    None \<Rightarrow> (Thrown BSONError, s)
                  | Some i \<Rightarrow>
                      (case findOne (\<lambda>n. note_id n = i \<and> doctorId n = email) s of
                         None \<Rightarrow>
                           (Response 404 (ErrorMessage ''Note not found or unauthorized''), s)
                       | Some existingNote \<Rightarrow>
                           (case newObjectId e (get b ''id'') of
                              None \<Rightarrow> (Thrown BSONError, s)
                            | Some j \<Rightarrow>
                                (Response 200 SuccessTrue,
                                 updateOne (\<lambda>n. note_id n = j)
                                   (updateData e b existingNote) s))))))"

subsection \<open>DELETE\<close>

definition DELETE :: "env \<Rightarrow> request \<Rightarrow> store \<Rightarrow> result \<times> store" where
  "DELETE e r s =
     (case caller r of
        None \<Rightarrow> (Response 401 (ErrorMessage ''Unauthorized''), s)
      | Some email \<Rightarrow>
          (case body r of
             None \<Rightarrow> (Thrown SyntaxError, s)
           | Some b \<Rightarrow>
               if nullish b then (Thrown TypeError, s)
               else if \<not> truthy (get b ''id'')
               then (Response 400 (ErrorMessage ''Missing note ID''), s)
               else
                 (case newObjectId e (get b ''id'') of
                    None \<Rightarrow> (Thrown BSONError, s)
                  | Some i \<Rightarrow>
                      (case findOne (\<lambda>n. note_id n = i \<and> doctorId n = email) s of
                         None \<Rightarrow>
                           (Response 404 (ErrorMessage ''Note not found or unauthorized''), s)
                       | Some existingNote \<Rightarrow>
                           (case newObjectId e (get b ''id'') of
                              None \<Rightarrow> (Thrown BSONError, s)
                            | Some j \<Rightarrow>
                                (Response 200 SuccessTrue,
                                 deleteOne (\<lambda>n. note_id n = j) s))))))"

subsection \<open>The invariant of the data model\<close>

text \<open>
  Of \<^verbatim>\<open>contentHtml\<close> and \<^verbatim>\<open>ocrText\<close>, the field that \<^verbatim>\<open>PATCH\<close> does not write for the
  note's \<^verbatim>\<open>source\<close> is not populated: it holds the empty string.
\<close>

definition inactive_field_empty :: "Note \<Rightarrow> bool" where
  "inactive_field_empty n =
     (if source n = JStr ''manual'' then ocrText n = JStr ''''
      else contentHtml n = JStr '''')"

section \<open>JavaScript numbers\<close>

text \<open>
  A JavaScript number is an IEEE 754 double: a finite value, kept as the rational it
  denotes (the two zeros are not told apart), an infinity, or \<^verbatim>\<open>NaN\<close>.
\<close>

datatype number = Num rat | Infinity | NegInfinity | NaN

text \<open>A number as a condition: zero and \<^verbatim>\<open>NaN\<close> are falsy.\<close>

fun truthy_number :: "number \<Rightarrow> bool" where
  "truthy_number (Num x) = (x \<noteq> 0)"
| "truthy_number NaN = False"
| "truthy_number v = True"

text \<open>The nearest integer, a tie going to the even one.\<close>

definition roundTiesToEven :: "rat \<Rightarrow> int" where
  "roundTiesToEven x =
     (let f = \<lfloor>x\<rfloor>; d = x - of_int f
      in if d < 1 / 2 then f else if 1 / 2 < d then f + 1 else if even f then f else f + 1)"

text \<open>
  The binary exponent of a positive value: \<open>e\<close> with \<open>2\<^sup>e \<le> z < 2\<^sup>e\<^sup>+\<^sup>1\<close>, found by halving
  or doubling; not below -1022, the exponent of the subnormal doubles, and 1024 for a
  value beyond the finite doubles.
\<close>

fun binade_up :: "nat \<Rightarrow> rat \<Rightarrow> int \<Rightarrow> int" where
  "binade_up k z e = (if k = 0 \<or> z < 2 then e else binade_up (k - 1) (z / 2) (e + 1))"

fun binade_down :: "nat \<Rightarrow> rat \<Rightarrow> int \<Rightarrow> int" where
  "binade_down k z e = (if k = 0 \<or> 1 \<le> z then e else binade_down (k - 1) (z * 2) (e - 1))"

definition binade :: "rat \<Rightarrow> int" where
  "binade z = (if 1 \<le> z then binade_up 1024 z 0 else binade_down 1022 z 0)"

text \<open>
  Rounding an exact non-negative result to 53 significant bits: the doubles of the binade
  of \<open>z\<close> are the multiples of \<open>2\<^sup>e\<^sup>-\<^sup>5\<^sup>2\<close>.
\<close>

definition round_magnitude :: "rat \<Rightarrow> rat" where
  "round_magnitude z =
     of_int (roundTiesToEven (z / 2 powi (binade z - 52))) * 2 powi (binade z - 52)"

text \<open>The double that an operation returns for the exact result \<open>z\<close>.\<close>

definition round_double :: "rat \<Rightarrow> number" where
  "round_double z =
     (if z < 0
      then (if 2 ^ 1024 \<le> round_magnitude (- z) then NegInfinity
            else Num (- round_magnitude (- z)))
      else (if 2 ^ 1024 \<le> round_magnitude z then Infinity else Num (round_magnitude z)))"

text \<open>\<^verbatim>\<open>x * 100\<close>.\<close>

fun times100 :: "number \<Rightarrow> number" where
  "times100 (Num x) = round_double (x * 100)"
| "times100 v = v"

text \<open>
  \<^verbatim>\<open>Math.round\<close>: the nearest integer, a half rounded up. The result is exact: a double
  of magnitude \<open>2\<^sup>5\<^sup>2\<close> or more is an integer already.
\<close>

fun Math_round :: "number \<Rightarrow> number" where
  "Math_round (Num x) = Num (of_int \<lfloor>x + 1 / 2\<rfloor>)"
| "Math_round v = v"

section \<open>The scan pipeline\<close>

text \<open>
  \<^verbatim>\<open>handleScanFile\<close> of the page component is an \<^verbatim>\<open>async\<close> function: it runs to
  its next \<^verbatim>\<open>await\<close> in one piece, and the rest runs later, when the awaited promise
  settles. A run is therefore a list of segments, each a list of the state updates and
  calls it makes in order. What the awaited calls do is given from outside, as a \<open>job\<close>.

  A transcript is a JavaScript string, a list of UTF-16 code units.
\<close>

type_synonym utf16 = "nat list"

record File =
  file_name :: string
  file_type :: string

text \<open>A message that the recognizer passes to \<^verbatim>\<open>logger\<close>; \<open>progress\<close> is a fraction.\<close>

record message =
  status :: string
  progress :: number

datatype ocr_source = Blob File | DataUrl string

datatype 'a settled = Resolved 'a | Rejected

record job =
  fileToBase64_settles :: "string settled"
  renderPdfToImage_settles :: "string settled"
  logger_messages :: "message list"
  runOcrOnImage_settles :: "utf16 settled"

datatype action =
    SetScanFile "File option"
  | SetScanPreview "string option"
  | SetOcrText utf16
  | SetOcrProgress number
  | SetOcrBusy bool
  | CallFileToBase64 File
  | CallRenderPdfToImage File
  | CallRunOcrOnImage ocr_source

text \<open>The component's state, as its \<^verbatim>\<open>useState\<close> hooks hold it.\<close>

record scan_state =
  scanFile :: "File option"
  scanPreview :: "string option"
  ocrTextState :: utf16
  ocrProgress :: number
  ocrBusy :: bool

definition initial_state :: scan_state where
  "initial_state =
     \<lparr>scanFile = None, scanPreview = None, ocrTextState = [], ocrProgress = Num 0,
      ocrBusy = False\<rparr>"

text \<open>
  \<^verbatim>\<open>String.prototype.trim\<close> removes the white space and line terminators of ECMAScript
  from both ends.
\<close>

definition isWhiteSpace :: "nat \<Rightarrow> bool" where
  "isWhiteSpace c =
     (c = 9 \<or> c = 10 \<or> c = 11 \<or> c = 12 \<or> c = 13 \<or> c = 32 \<or> c = 160 \<or> c = 5760 \<or>
      (8192 \<le> c \<and> c \<le> 8202) \<or> c = 8232 \<or> c = 8233 \<or> c = 8239 \<or> c = 8287 \<or>
      c = 12288 \<or> c = 65279)"

definition trim :: "utf16 \<Rightarrow> utf16" where
  "trim t = rev (dropWhile isWhiteSpace (rev (dropWhile isWhiteSpace t)))"

definition fallback :: utf16 where
  "fallback = map of_char ''Unable to extract text. Please try a clearer scan.''"

text \<open>The \<^verbatim>\<open>logger\<close> callback of \<^verbatim>\<open>runOcrOnImage\<close>.\<close>

definition logger :: "message \<Rightarrow> action list" where
  "logger m =
     (if status m = ''recognizing text'' \<and> truthy_number (progress m)
      then [SetOcrProgress (Math_round (times100 (progress m)))]
      else [])"

text \<open>The \<^verbatim>\<open>catch\<close> block, followed by the \<^verbatim>\<open>finally\<close> block.\<close>

definition caught :: "action list" where
  "caught = [SetOcrText fallback, SetOcrBusy False]"

text \<open>
  From the call of \<^verbatim>\<open>runOcrOnImage\<close> on: the logger runs once for each message, then
  the call settles.
\<close>

definition recognizing :: "job \<Rightarrow> action list list" where
  "recognizing j =
     map logger (logger_messages j) @
     [case runOcrOnImage_settles j of
        Resolved text \<Rightarrow> [SetOcrText (trim text), SetOcrBusy False]
      | Rejected \<Rightarrow> caught]"

definition handleScanFile :: "File \<Rightarrow> job \<Rightarrow> action list list" where
  "handleScanFile file j =
     [SetScanFile (Some file), SetScanPreview None, SetOcrText [], SetOcrProgress (Num 0),
      SetOcrBusy True, CallFileToBase64 file] #
     (case fileToBase64_settles j of
        Rejected \<Rightarrow> [caught]
      | Resolved preview \<Rightarrow>
          if file_type file = ''application/pdf''
          then [SetScanPreview (Some preview), CallRenderPdfToImage file] #
               (case renderPdfToImage_settles j of
                  Rejected \<Rightarrow> [caught]
                | Resolved ocrSource \<Rightarrow> [CallRunOcrOnImage (DataUrl ocrSource)] # recognizing j)
          else [SetScanPreview (Some preview), CallRunOcrOnImage (Blob file)] #
               recognizing j)"

fun apply_action :: "action \<Rightarrow> scan_state \<Rightarrow> scan_state" where
  "apply_action (SetScanFile f) st = st\<lparr>scanFile := f\<rparr>"
| "apply_action (SetScanPreview p) st = st\<lparr>scanPreview := p\<rparr>"
| "apply_action (SetOcrText t) st = st\<lparr>ocrTextState := t\<rparr>"
| "apply_action (SetOcrProgress v) st = st\<lparr>ocrProgress := v\<rparr>"
| "apply_action (SetOcrBusy b) st = st\<lparr>ocrBusy := b\<rparr>"
| "apply_action (CallFileToBase64 f) st = st"
| "apply_action (CallRenderPdfToImage f) st = st"
| "apply_action (CallRunOcrOnImage src) st = st"

definition run_segment :: "action list \<Rightarrow> scan_state \<Rightarrow> scan_state" where
  "run_segment seg st = fold apply_action seg st"

definition run :: "action list list \<Rightarrow> scan_state \<Rightarrow> scan_state" where
  "run segs st = fold run_segment segs st"


text \<open>The sources handed to the recognizer.\<close>

fun recognizer_inputs :: "action list \<Rightarrow> ocr_source list" where
  "recognizer_inputs [] = []"
| "recognizer_inputs (CallRunOcrOnImage src # as) = src # recognizer_inputs as"
| "recognizer_inputs (a # as) = recognizer_inputs as"

text \<open>The media types the file input accepts: \<^verbatim>\<open>image/*,application/pdf\<close>.\<close>

definition accepted_type :: "string \<Rightarrow> bool" where
  "accepted_type t = (take 6 t = ''image/'' \<or> t = ''application/pdf'')"

section \<open>Example data\<close>

text \<open>
  An \<^verbatim>\<open>ObjectId\<close> constructor for the examples: it takes a string of 24 hexadecimal
  digits and throws on every other value.
\<close>

definition isHexDigit :: "char \<Rightarrow> bool" where
  "isHexDigit c = (c \<in> set ''0123456789abcdef'')"

fun hexObjectId :: "jsval \<Rightarrow> objectId option" where
  "hexObjectId (JStr h) = (if length h = 24 \<and> list_all isHexDigit h then Some h else None)"
| "hexObjectId v = None"

definition example_env :: env where
  "example_env =
     \<lparr>newObjectId = hexObjectId, now = 1700000000000,
      insertedId = ''65a1b2c3d4e5f60718293a03''\<rparr>"

definition ann_note :: Note where
  "ann_note =
     \<lparr>note_id = ''65a1b2c3d4e5f60718293a01'', doctorId = ''ann@clinic.org'',
      title = JStr ''Visit 1'', source = JStr ''manual'',
      contentHtml = JStr ''<p>ok</p>'', ocrText = JStr '''',
      fileUrl = JStr '''', fileName = JStr '''', fileType = JStr '''',
      filePublicId = JStr '''', createdAt = 100, updatedAt = None\<rparr>"

definition bob_note :: Note where
  "bob_note =
     \<lparr>note_id = ''65a1b2c3d4e5f60718293a02'', doctorId = ''bob@clinic.org'',
      title = JStr ''Lab sheet'', source = JStr ''scan'',
      contentHtml = JStr '''', ocrText = JStr ''bp 120/80'',
      fileUrl = JStr ''https://files.example/lab.png'', fileName = JStr ''lab.png'',
      fileType = JStr ''image/png'', filePublicId = JStr ''lab'',
      createdAt = 200, updatedAt = None\<rparr>"

definition example_store :: store where
  "example_store = [ann_note, bob_note]"

definition request_from :: "string \<Rightarrow> (string \<times> jsval) list \<Rightarrow> request" where
  "request_from email kvs = \<lparr>session_email = Some email, body = Some (JObj kvs)\<rparr>"

definition photo :: File where
  "photo = \<lparr>file_name = ''scan.png'', file_type = ''image/png''\<rparr>"

definition letter :: File where
  "letter = \<lparr>file_name = ''letter.pdf'', file_type = ''application/pdf''\<rparr>"

definition memo :: File where
  "memo = \<lparr>file_name = ''memo.txt'', file_type = ''text/plain''\<rparr>"

text \<open>A job in which every awaited call resolves, the recognizer with the given text.\<close>

definition resolving :: "utf16 \<Rightarrow> job" where
  "resolving t =
     \<lparr>fileToBase64_settles = Resolved ''data:;base64,AA=='',
      renderPdfToImage_settles = Resolved ''data:image/png;base64,AA=='',
      logger_messages =
        [\<lparr>status = ''initializing api'', progress = Num 1\<rparr>,
         \<lparr>status = ''recognizing text'', progress = Num 0\<rparr>,
         \<lparr>status = ''recognizing text'', progress = Num (1 / 4)\<rparr>,
         \<lparr>status = ''recognizing text'', progress = Num 1\<rparr>],
      runOcrOnImage_settles = Resolved t\<rparr>"

text \<open>A job in which the recognizer rejects after one message.\<close>

definition rejecting :: job where
  "rejecting =
     \<lparr>fileToBase64_settles = Resolved ''data:;base64,AA=='',
      renderPdfToImage_settles = Resolved ''data:image/png;base64,AA=='',
      logger_messages = [\<lparr>status = ''recognizing text'', progress = Num (1 / 2)\<rparr>],
      runOcrOnImage_settles = Rejected\<rparr>"

text \<open>
  A job in which the recognizer reports the fractions 0.5, 0.25 and 2, all three doubles.
\<close>

definition erratic :: job where
  "erratic =
     \<lparr>fileToBase64_settles = Resolved ''data:;base64,AA=='',
      renderPdfToImage_settles = Resolved ''data:image/png;base64,AA=='',
      logger_messages =
        [\<lparr>status = ''recognizing text'', progress = Num (1 / 2)\<rparr>,
         \<lparr>status = ''recognizing text'', progress = Num (1 / 4)\<rparr>,
         \<lparr>status = ''recognizing text'', progress = Num 2\<rparr>],
      runOcrOnImage_settles = Resolved []\<rparr>"

text \<open>
  Two runs for one component: the photo is selected first, the letter while the photo's
  job is still in flight. In \<open>stale_schedule\<close> the letter's job runs to its end before
  the rest of the photo's job does.
\<close>

definition older_run :: "action list list" where
  "older_run = handleScanFile photo (resolving (map of_char ''old''))"

definition newer_run :: "action list list" where
  "newer_run = handleScanFile letter (resolving (map of_char ''new''))"

definition stale_schedule :: "action list list" where
  "stale_schedule = hd older_run # newer_run @ tl older_run"

section \<open>Properties of the note store\<close>

subsection \<open>The collection operations\<close>

lemma lookup_SomeD: "lookup i s = Some n \<Longrightarrow> n \<in> set s \<and> note_id n = i"
  by (auto simp: lookup_def find_Some_iff in_set_conv_nth)

lemma findOne_SomeD: "findOne q s = Some n \<Longrightarrow> n \<in> set s \<and> q n"
  by (auto simp: findOne_def find_Some_iff in_set_conv_nth)

lemma findOne_None_iff: "findOne q s = None \<longleftrightarrow> (\<forall>n \<in> set s. \<not> q n)"
  by (auto simp: findOne_def find_None_iff)

lemma lookup_None_iff: "lookup i s = None \<longleftrightarrow> (\<forall>n \<in> set s. note_id n \<noteq> i)"
  by (auto simp: lookup_def find_None_iff)

lemma unique_ids_Cons:
  "unique_ids (n # ns) \<longleftrightarrow> (\<forall>m \<in> set ns. note_id m \<noteq> note_id n) \<and> unique_ids ns"
  by (auto simp: unique_ids_def image_iff)

lemma findOne_owned:
  "unique_ids s \<Longrightarrow> lookup i s = Some n \<Longrightarrow>
     findOne (\<lambda>m. note_id m = i \<and> doctorId m = email) s
       = (if doctorId n = email then Some n else None)"
proof (induction s)
  case Nil
  then show ?case by (simp add: lookup_def)
next
  case (Cons a s)
  show ?case
  proof (cases "note_id a = i")
    case True
    with Cons.prems have an: "a = n" by (simp add: lookup_def)
    have "\<forall>m \<in> set s. note_id m \<noteq> i"
      using Cons.prems(1) True by (auto simp: unique_ids_Cons)
    then have "findOne (\<lambda>m. note_id m = i \<and> doctorId m = email) s = None"
      by (simp add: findOne_None_iff)
    with True an show ?thesis by (simp add: findOne_def)
  next
    case False
    with Cons show ?thesis by (simp add: lookup_def findOne_def unique_ids_Cons)
  qed
qed

lemma lookup_updateOne_same:
  "lookup i s = Some n \<Longrightarrow> note_id (f n) = i \<Longrightarrow>
     lookup i (updateOne (\<lambda>m. note_id m = i) f s) = Some (f n)"
  by (induction s) (auto simp: lookup_def)

lemma lookup_updateOne_other:
  "k \<noteq> i \<Longrightarrow> (\<And>m. note_id (f m) = note_id m) \<Longrightarrow>
     lookup k (updateOne (\<lambda>m. note_id m = i) f s) = lookup k s"
  by (induction s) (auto simp: lookup_def)

lemma set_updateOne:
  "lookup i s = Some n \<Longrightarrow> unique_ids s \<Longrightarrow>
     set (updateOne (\<lambda>m. note_id m = i) f s) = insert (f n) (set s - {n})"
proof (induction s)
  case Nil
  then show ?case by (simp add: lookup_def)
next
  case (Cons a s)
  show ?case
  proof (cases "note_id a = i")
    case True
    with Cons.prems have an: "a = n" by (simp add: lookup_def)
    have "n \<notin> set s" using Cons.prems(2) an by (auto simp: unique_ids_Cons)
    with True an show ?thesis by auto
  next
    case False
    with Cons.prems have l: "lookup i s = Some n" and u: "unique_ids s"
      by (simp_all add: lookup_def unique_ids_Cons)
    have "a \<noteq> n" using False lookup_SomeD [OF l] by auto
    with False Cons.IH [OF l u] show ?thesis by auto
  qed
qed

lemma set_deleteOne_subset: "set (deleteOne q s) \<subseteq> set s"
  by (induction s) auto

lemma deleteOne_removes_id:
  "unique_ids s \<Longrightarrow> \<forall>m \<in> set (deleteOne (\<lambda>m. note_id m = i) s). note_id m \<noteq> i"
proof (induction s)
  case Nil
  then show ?case by simp
next
  case (Cons a s)
  then show ?case by (auto simp: unique_ids_Cons)
qed

lemma truthy_get_not_nullish: "truthy (get b k) \<Longrightarrow> \<not> nullish b"
  by (cases b) auto

lemma note_id_updateData [simp]: "note_id (updateData e b x m) = note_id m"
  by (simp add: updateData_def)

lemma unique_ids_same:
  "unique_ids s \<Longrightarrow> m \<in> set s \<Longrightarrow> n \<in> set s \<Longrightarrow> note_id m = note_id n \<Longrightarrow> m = n"
  by (auto simp: unique_ids_def distinct_map dest: inj_onD)

lemma set_updateOne_subset:
  "set (updateOne q f s) \<subseteq> set s \<union> f ` {m \<in> set s. q m}"
  by (induction s) auto

lemma inactive_field_empty_updateData:
  "inactive_field_empty n \<Longrightarrow> inactive_field_empty (updateData e b n n)"
  by (simp add: inactive_field_empty_def updateData_def)

lemma PATCH_store_cases:
  "snd (PATCH e r s) = s \<or>
   (\<exists>i b n. findOne (\<lambda>m. note_id m = i \<and> doctorId m = the (caller r)) s = Some n
      \<and> snd (PATCH e r s) = updateOne (\<lambda>m. note_id m = i) (updateData e b n) s)"
  by (auto simp: PATCH_def split: option.splits)

lemma DELETE_store_subset: "set (snd (DELETE e r s)) \<subseteq> set s"
  using set_deleteOne_subset by (auto simp: DELETE_def split: option.splits)

lemma PATCH_keeps_invariant:
  assumes "unique_ids s" and "\<forall>n \<in> set s. inactive_field_empty n"
  shows "\<forall>n \<in> set (snd (PATCH e r s)). inactive_field_empty n"
proof -
  from PATCH_store_cases [of e r s] show ?thesis
  proof
    assume "snd (PATCH e r s) = s"
    with assms(2) show ?thesis by simp
  next
    assume "\<exists>i b n. findOne (\<lambda>m. note_id m = i \<and> doctorId m = the (caller r)) s = Some n
      \<and> snd (PATCH e r s) = updateOne (\<lambda>m. note_id m = i) (updateData e b n) s"
    then obtain i b n where
      f: "findOne (\<lambda>m. note_id m = i \<and> doctorId m = the (caller r)) s = Some n"
      and p: "snd (PATCH e r s) = updateOne (\<lambda>m. note_id m = i) (updateData e b n) s"
      by blast
    from findOne_SomeD [OF f] have n: "n \<in> set s" "note_id n = i" by simp_all
    show ?thesis
    proof
      fix x assume "x \<in> set (snd (PATCH e r s))"
      then have "x \<in> set s \<or> (\<exists>m \<in> set s. note_id m = i \<and> x = updateData e b n m)"
        using set_updateOne_subset [of "\<lambda>m. note_id m = i" "updateData e b n" s] p by auto
      then show "inactive_field_empty x"
      proof
        assume "x \<in> set s" with assms(2) show ?thesis by simp
      next
        assume "\<exists>m \<in> set s. note_id m = i \<and> x = updateData e b n m"
        then obtain m where m: "m \<in> set s" "note_id m = i" "x = updateData e b n m" by blast
        have "m = n" using unique_ids_same [OF assms(1) m(1) n(1)] m(2) n(2) by simp
        with m(3) n(1) assms(2) show ?thesis
          by (simp add: inactive_field_empty_updateData)
      qed
    qed
  qed
qed

lemma sort_createdAt_desc_mset: "mset (sort_createdAt_desc ns) = mset ns"
  by (simp add: sort_createdAt_desc_def)

lemma sort_createdAt_desc_sorted:
  "sorted_wrt (\<lambda>a b. createdAt b \<le> createdAt a) (sort_createdAt_desc ns)"
proof -
  have "sorted (map (\<lambda>n. - createdAt n) (sort_createdAt_desc ns))"
    by (simp add: sort_createdAt_desc_def)
  then show ?thesis
    by (simp add: sorted_wrt_map sorted_map)
qed

subsection \<open>The handlers on a request that reaches the lookup\<close>

lemma PATCH_owned:
  assumes "unique_ids s" and "caller r = Some email" and "body r = Some b"
    and "truthy (get b ''id'')" and "truthy (get b ''title'')"
    and "newObjectId e (get b ''id'') = Some i"
    and "lookup i s = Some n" and "doctorId n = email"
  shows "PATCH e r s =
           (Response 200 SuccessTrue, updateOne (\<lambda>m. note_id m = i) (updateData e b n) s)"
proof -
  have "\<not> nullish b" using assms(4) by (rule truthy_get_not_nullish)
  moreover have "findOne (\<lambda>m. note_id m = i \<and> doctorId m = email) s = Some n"
    using findOne_owned [OF assms(1) assms(7), of email] assms(8) by simp
  ultimately show ?thesis
    using assms by (simp add: PATCH_def)
qed

lemma DELETE_owned:
  assumes "unique_ids s" and "caller r = Some email" and "body r = Some b"
    and "truthy (get b ''id'')"
    and "newObjectId e (get b ''id'') = Some i"
    and "lookup i s = Some n" and "doctorId n = email"
  shows "DELETE e r s = (Response 200 SuccessTrue, deleteOne (\<lambda>m. note_id m = i) s)"
proof -
  have "\<not> nullish b" using assms(4) by (rule truthy_get_not_nullish)
  moreover have "findOne (\<lambda>m. note_id m = i \<and> doctorId m = email) s = Some n"
    using findOne_owned [OF assms(1) assms(6), of email] assms(7) by simp
  ultimately show ?thesis
    using assms by (simp add: DELETE_def)
qed

lemma PATCH_not_owned:
  assumes "caller r = Some email" and "body r = Some b"
    and "truthy (get b ''id'')" and "truthy (get b ''title'')"
    and "newObjectId e (get b ''id'') = Some i"
    and "\<forall>n \<in> set s. note_id n = i \<longrightarrow> doctorId n \<noteq> email"
  shows "PATCH e r s = (Response 404 (ErrorMessage ''Note not found or unauthorized''), s)"
proof -
  have "\<not> nullish b" using assms(3) by (rule truthy_get_not_nullish)
  moreover have "findOne (\<lambda>m. note_id m = i \<and> doctorId m = email) s = None"
    using assms(6) by (auto simp: findOne_None_iff)
  ultimately show ?thesis
    using assms by (simp add: PATCH_def)
qed

lemma DELETE_not_owned:
  assumes "caller r = Some email" and "body r = Some b"
    and "truthy (get b ''id'')"
    and "newObjectId e (get b ''id'') = Some i"
    and "\<forall>n \<in> set s. note_id n = i \<longrightarrow> doctorId n \<noteq> email"
  shows "DELETE e r s = (Response 404 (ErrorMessage ''Note not found or unauthorized''), s)"
proof -
  have "\<not> nullish b" using assms(3) by (rule truthy_get_not_nullish)
  moreover have "findOne (\<lambda>m. note_id m = i \<and> doctorId m = email) s = None"
    using assms(5) by (auto simp: findOne_None_iff)
  ultimately show ?thesis
    using assms by (simp add: DELETE_def)
qed

lemmas ex_defs = example_env_def ann_note_def bob_note_def example_store_def request_from_def
  unique_ids_def lookup_def isHexDigit_def

subsection \<open>Listing\<close>

text \<open>
  Claim C3. For an authenticated caller and any store, \<^verbatim>\<open>GET\<close> answers 200 with
  exactly the caller's notes: the documents listed are, counted with multiplicity, the
  stored documents whose \<^verbatim>\<open>doctorId\<close> is the caller's email, none has another owner, and
  they are in descending order of \<^verbatim>\<open>createdAt\<close>.
\<close>

theorem GET_own_notes_newest_first:
  assumes "caller r = Some email"
  shows "\<exists>vs. GET r s = Response 200 (Notes vs)
           \<and> mset (map spread vs) = mset (filter (\<lambda>n. doctorId n = email) s)
           \<and> (\<forall>v \<in> set vs. doctorId (spread v) = email \<and> view_id v = note_id (spread v)
                 \<and> view_createdAt v = Some (createdAt (spread v)))
           \<and> sorted_wrt (\<lambda>a b. createdAt (spread b) \<le> createdAt (spread a)) vs"
proof -
  let ?own = "filter (\<lambda>n. doctorId n = email) s"
  let ?vs = "map serialize (sort_createdAt_desc ?own)"
  have sp: "map spread ?vs = sort_createdAt_desc ?own"
    by (simp add: serialize_def comp_def)
  have g: "GET r s = Response 200 (Notes ?vs)"
    using assms by (simp add: GET_def)
  have m: "mset (map spread ?vs) = mset ?own"
    unfolding sp by (rule sort_createdAt_desc_mset)
  have "set (sort_createdAt_desc ?own) = set ?own"
    using sort_createdAt_desc_mset [of ?own] by (metis set_mset_mset)
  then have o: "\<forall>v \<in> set ?vs. doctorId (spread v) = email \<and> view_id v = note_id (spread v)
                 \<and> view_createdAt v = Some (createdAt (spread v))"
    by (auto simp: serialize_def)
  have "sorted_wrt (\<lambda>a b. createdAt b \<le> createdAt a) (map spread ?vs)"
    unfolding sp by (rule sort_createdAt_desc_sorted)
  then have so: "sorted_wrt (\<lambda>a b. createdAt (spread b) \<le> createdAt (spread a)) ?vs"
    by (simp only: sorted_wrt_map)
  from g m o so show ?thesis by blast
qed

theorem GET_own_notes_newest_first_witness:
  "\<exists>vs. GET (request_from ''bob@clinic.org'' []) example_store = Response 200 (Notes vs)
         \<and> mset (map spread vs) = {#bob_note#}
         \<and> (\<forall>v \<in> set vs. doctorId (spread v) = ''bob@clinic.org'')"
  using GET_own_notes_newest_first
    [of "request_from ''bob@clinic.org'' []" "''bob@clinic.org''" example_store]
  by (simp add: ex_defs) blast

subsection \<open>Updating\<close>

text \<open>
  Claim C1. When the owner of a stored note sends a \<^verbatim>\<open>PATCH\<close> for it (with an id and a
  title), the update succeeds, the stored title becomes the title sent, and the content
  field that does not belong to the note's origin stays as it was: \<^verbatim>\<open>ocrText\<close> of a
  manual note, \<^verbatim>\<open>contentHtml\<close> of a scanned one, whatever the body supplies for it.
\<close>

theorem PATCH_sets_title_keeps_inapplicable_field:
  assumes "unique_ids s" and "caller r = Some email" and "body r = Some b"
    and "truthy (get b ''id'')" and "truthy (get b ''title'')"
    and "newObjectId e (get b ''id'') = Some i"
    and "lookup i s = Some n" and "doctorId n = email"
  shows "\<exists>s' n'. PATCH e r s = (Response 200 SuccessTrue, s') \<and> lookup i s' = Some n'
           \<and> title n' = get b ''title''
           \<and> (source n = JStr ''manual'' \<longrightarrow> ocrText n' = ocrText n)
           \<and> (source n = JStr ''scan'' \<longrightarrow> contentHtml n' = contentHtml n)"
proof -
  let ?s' = "updateOne (\<lambda>m. note_id m = i) (updateData e b n) s"
  let ?n' = "updateData e b n n"
  have p: "PATCH e r s = (Response 200 SuccessTrue, ?s')"
    using assms by (rule PATCH_owned)
  have "note_id ?n' = i" using lookup_SomeD [OF assms(7)] by simp
  then have l: "lookup i ?s' = Some ?n'"
    using assms(7) by (simp add: lookup_updateOne_same)
  have t: "title ?n' = get b ''title''"
    by (simp add: updateData_def)
  have m: "source n = JStr ''manual'' \<longrightarrow> ocrText ?n' = ocrText n"
    by (simp add: updateData_def)
  have c: "source n = JStr ''scan'' \<longrightarrow> contentHtml ?n' = contentHtml n"
    by (simp add: updateData_def)
  from p l t m c show ?thesis by blast
qed

theorem PATCH_sets_title_keeps_inapplicable_field_witness:
  "\<exists>s' n'. PATCH example_env
       (request_from ''ann@clinic.org''
          [(''id'', JStr ''65a1b2c3d4e5f60718293a01''), (''title'', JStr ''Visit 1b''),
           (''ocrText'', JStr ''ignored'')])
       example_store = (Response 200 SuccessTrue, s')
     \<and> lookup ''65a1b2c3d4e5f60718293a01'' s' = Some n'
     \<and> title n' = JStr ''Visit 1b'' \<and> ocrText n' = JStr ''''"
  using PATCH_sets_title_keeps_inapplicable_field
    [of example_store
        "request_from ''ann@clinic.org''
          [(''id'', JStr ''65a1b2c3d4e5f60718293a01''), (''title'', JStr ''Visit 1b''),
           (''ocrText'', JStr ''ignored'')]"
        "''ann@clinic.org''"
        "JObj [(''id'', JStr ''65a1b2c3d4e5f60718293a01''), (''title'', JStr ''Visit 1b''),
           (''ocrText'', JStr ''ignored'')]"
        example_env "''65a1b2c3d4e5f60718293a01''" ann_note]
  by (simp add: ex_defs)

text \<open>
  Claim C10. A successful \<^verbatim>\<open>PATCH\<close> of an owned note always overwrites the content field
  of the note's origin with \<^verbatim>\<open>contentHtml ?? ""\<close> (manual) or \<^verbatim>\<open>ocrText ?? ""\<close>
  (otherwise): when the body leaves that field out, the stored field becomes the empty
  string. The identifier, origin, owner, creation time and attachment fields of the note
  stay as they were, and so does every other note.
\<close>

theorem PATCH_overwrites_applicable_field:
  assumes "unique_ids s" and "caller r = Some email" and "body r = Some b"
    and "truthy (get b ''id'')" and "truthy (get b ''title'')"
    and "newObjectId e (get b ''id'') = Some i"
    and "lookup i s = Some n" and "doctorId n = email"
  shows "\<exists>s' n'. PATCH e r s = (Response 200 SuccessTrue, s') \<and> lookup i s' = Some n'
           \<and> (source n = JStr ''manual'' \<longrightarrow>
                 contentHtml n' = coalesce (get b ''contentHtml'') (JStr '''')
                 \<and> (get b ''contentHtml'' = Undefined \<longrightarrow> contentHtml n' = JStr ''''))
           \<and> (source n \<noteq> JStr ''manual'' \<longrightarrow>
                 ocrText n' = coalesce (get b ''ocrText'') (JStr '''')
                 \<and> (get b ''ocrText'' = Undefined \<longrightarrow> ocrText n' = JStr ''''))
           \<and> note_id n' = note_id n \<and> source n' = source n \<and> doctorId n' = doctorId n
           \<and> createdAt n' = createdAt n \<and> fileUrl n' = fileUrl n
           \<and> fileName n' = fileName n \<and> fileType n' = fileType n
           \<and> filePublicId n' = filePublicId n
           \<and> (\<forall>k. k \<noteq> i \<longrightarrow> lookup k s' = lookup k s)"
proof -
  let ?s' = "updateOne (\<lambda>m. note_id m = i) (updateData e b n) s"
  let ?n' = "updateData e b n n"
  have p: "PATCH e r s = (Response 200 SuccessTrue, ?s')"
    using assms by (rule PATCH_owned)
  have "note_id ?n' = i" using lookup_SomeD [OF assms(7)] by simp
  then have l: "lookup i ?s' = Some ?n'"
    using assms(7) by (simp add: lookup_updateOne_same)
  have a: "source n = JStr ''manual'' \<longrightarrow>
             contentHtml ?n' = coalesce (get b ''contentHtml'') (JStr '''')
             \<and> (get b ''contentHtml'' = Undefined \<longrightarrow> contentHtml ?n' = JStr '''')"
    by (simp add: updateData_def)
  have o: "source n \<noteq> JStr ''manual'' \<longrightarrow>
             ocrText ?n' = coalesce (get b ''ocrText'') (JStr '''')
             \<and> (get b ''ocrText'' = Undefined \<longrightarrow> ocrText ?n' = JStr '''')"
    by (simp add: updateData_def)
  have f: "note_id ?n' = note_id n \<and> source ?n' = source n \<and> doctorId ?n' = doctorId n
           \<and> createdAt ?n' = createdAt n \<and> fileUrl ?n' = fileUrl n
           \<and> fileName ?n' = fileName n \<and> fileType ?n' = fileType n
           \<and> filePublicId ?n' = filePublicId n"
    by (simp add: updateData_def)
  have k: "\<forall>k. k \<noteq> i \<longrightarrow> lookup k ?s' = lookup k s"
    by (simp add: lookup_updateOne_other)
  from p l a o f k show ?thesis by blast
qed

theorem PATCH_overwrites_applicable_field_witness:
  "\<exists>s' n'. PATCH example_env
       (request_from ''ann@clinic.org''
          [(''id'', JStr ''65a1b2c3d4e5f60718293a01''), (''title'', JStr ''Visit 1b'')])
       example_store = (Response 200 SuccessTrue, s')
     \<and> lookup ''65a1b2c3d4e5f60718293a01'' s' = Some n'
     \<and> contentHtml n' = JStr '''' \<and> source n' = JStr ''manual''
     \<and> doctorId n' = ''ann@clinic.org'' \<and> createdAt n' = 100"
  using PATCH_overwrites_applicable_field
    [of example_store
        "request_from ''ann@clinic.org''
          [(''id'', JStr ''65a1b2c3d4e5f60718293a01''), (''title'', JStr ''Visit 1b'')]"
        "''ann@clinic.org''"
        "JObj [(''id'', JStr ''65a1b2c3d4e5f60718293a01''), (''title'', JStr ''Visit 1b'')]"
        example_env "''65a1b2c3d4e5f60718293a01''" ann_note]
  by (simp add: ex_defs) blast

subsection \<open>Records that are absent or owned by someone else\<close>

text \<open>
  Claim C2, as stated, at two requests for which no record has the id given: a
  \<^verbatim>\<open>DELETE\<close> whose id the constructor rejects throws instead of answering 404, and a
  \<^verbatim>\<open>PATCH\<close> without a title is answered 400.
\<close>

theorem absent_id_not_always_404_counterexample:
  "list_all (\<lambda>n. note_id n \<noteq> ''not-an-id'' \<and> note_id n \<noteq> ''65a1b2c3d4e5f6071829ffff'')
     example_store
   \<and> caller (request_from ''ann@clinic.org'' [(''id'', JStr ''not-an-id'')])
       = Some ''ann@clinic.org''
   \<and> DELETE example_env (request_from ''ann@clinic.org'' [(''id'', JStr ''not-an-id'')])
       example_store
     = (Thrown BSONError, example_store)
   \<and> PATCH example_env
       (request_from ''ann@clinic.org'' [(''id'', JStr ''65a1b2c3d4e5f6071829ffff'')])
       example_store
     = (Response 400 (ErrorMessage ''Missing required fields.''), example_store)"
  by (simp add: ex_defs DELETE_def PATCH_def)

text \<open>
  Claim C2, amended. For an authenticated \<^verbatim>\<open>PATCH\<close> or \<^verbatim>\<open>DELETE\<close> whose id is not empty
  and is taken by the driver as an \<^verbatim>\<open>ObjectId\<close> (a \<^verbatim>\<open>PATCH\<close> also carrying a title): when
  every stored record with that id (if there is one) has another owner, the answer is 404
  with one and the same message, and the store is unchanged. A second \<^verbatim>\<open>DELETE\<close> of the
  same id, sent after the first, is answered 404.
\<close>

theorem not_found_or_forbidden:
  assumes "caller r = Some email" and "body r = Some b"
    and "truthy (get b ''id'')" and "newObjectId e (get b ''id'') = Some i"
  shows "((\<forall>n \<in> set s. note_id n = i \<longrightarrow> doctorId n \<noteq> email) \<longrightarrow>
            DELETE e r s = (Response 404 (ErrorMessage ''Note not found or unauthorized''), s)
            \<and> (truthy (get b ''title'') \<longrightarrow>
                 PATCH e r s
                   = (Response 404 (ErrorMessage ''Note not found or unauthorized''), s)))
         \<and> (unique_ids s \<longrightarrow>
              DELETE e r (snd (DELETE e r s))
                = (Response 404 (ErrorMessage ''Note not found or unauthorized''),
                   snd (DELETE e r s)))"
proof -
  let ?nf = "Response 404 (ErrorMessage ''Note not found or unauthorized'')"
  have first: "(\<forall>n \<in> set s. note_id n = i \<longrightarrow> doctorId n \<noteq> email) \<longrightarrow>
            DELETE e r s = (?nf, s) \<and> (truthy (get b ''title'') \<longrightarrow> PATCH e r s = (?nf, s))"
    using assms by (simp add: DELETE_not_owned PATCH_not_owned)
  have second: "DELETE e r (snd (DELETE e r s)) = (?nf, snd (DELETE e r s))" if u: "unique_ids s"
  proof (cases "\<forall>n \<in> set s. note_id n = i \<longrightarrow> doctorId n \<noteq> email")
    case True
    then have "DELETE e r s = (?nf, s)"
      using assms by (simp add: DELETE_not_owned)
    then show ?thesis by simp
  next
    case False
    then obtain n where n: "n \<in> set s" "note_id n = i" "doctorId n = email" by blast
    then obtain m where m: "lookup i s = Some m"
      by (cases "lookup i s") (auto simp: lookup_None_iff)
    have "findOne (\<lambda>m. note_id m = i \<and> doctorId m = email) s \<noteq> None"
      using n by (auto simp: findOne_None_iff)
    then have "doctorId m = email"
      using findOne_owned [OF u m, of email] by (simp split: if_splits)
    then have d: "DELETE e r s = (Response 200 SuccessTrue, deleteOne (\<lambda>m. note_id m = i) s)"
      using u assms m by (simp add: DELETE_owned)
    have "\<forall>n \<in> set (deleteOne (\<lambda>m. note_id m = i) s). note_id n = i \<longrightarrow> doctorId n \<noteq> email"
      using deleteOne_removes_id [OF u, of i] by blast
    then have "DELETE e r (deleteOne (\<lambda>m. note_id m = i) s)
                 = (?nf, deleteOne (\<lambda>m. note_id m = i) s)"
      using assms by (simp add: DELETE_not_owned)
    with d show ?thesis by simp
  qed
  from first second show ?thesis by blast
qed

theorem not_found_or_forbidden_witness:
  "DELETE example_env
       (request_from ''bob@clinic.org'' [(''id'', JStr ''65a1b2c3d4e5f60718293a01'')])
       example_store
     = (Response 404 (ErrorMessage ''Note not found or unauthorized''), example_store)
   \<and> DELETE example_env
       (request_from ''bob@clinic.org'' [(''id'', JStr ''65a1b2c3d4e5f6071829ffff'')])
       example_store
     = (Response 404 (ErrorMessage ''Note not found or unauthorized''), example_store)
   \<and> PATCH example_env
       (request_from ''bob@clinic.org''
          [(''id'', JStr ''65a1b2c3d4e5f60718293a01''), (''title'', JStr ''Mine'')])
       example_store
     = (Response 404 (ErrorMessage ''Note not found or unauthorized''), example_store)
   \<and> DELETE example_env
       (request_from ''ann@clinic.org'' [(''id'', JStr ''65a1b2c3d4e5f60718293a01'')])
       example_store
     = (Response 200 SuccessTrue, [bob_note])
   \<and> DELETE example_env
       (request_from ''ann@clinic.org'' [(''id'', JStr ''65a1b2c3d4e5f60718293a01'')])
       [bob_note]
     = (Response 404 (ErrorMessage ''Note not found or unauthorized''), [bob_note])"
  using not_found_or_forbidden
    [of "request_from ''bob@clinic.org'' [(''id'', JStr ''65a1b2c3d4e5f60718293a01'')]"
        "''bob@clinic.org''" "JObj [(''id'', JStr ''65a1b2c3d4e5f60718293a01'')]"
        example_env "''65a1b2c3d4e5f60718293a01''" example_store]
    not_found_or_forbidden
    [of "request_from ''bob@clinic.org'' [(''id'', JStr ''65a1b2c3d4e5f6071829ffff'')]"
        "''bob@clinic.org''" "JObj [(''id'', JStr ''65a1b2c3d4e5f6071829ffff'')]"
        example_env "''65a1b2c3d4e5f6071829ffff''" example_store]
    not_found_or_forbidden
    [of "request_from ''bob@clinic.org''
          [(''id'', JStr ''65a1b2c3d4e5f60718293a01''), (''title'', JStr ''Mine'')]"
        "''bob@clinic.org''"
        "JObj [(''id'', JStr ''65a1b2c3d4e5f60718293a01''), (''title'', JStr ''Mine'')]"
        example_env "''65a1b2c3d4e5f60718293a01''" example_store]
    not_found_or_forbidden
    [of "request_from ''ann@clinic.org'' [(''id'', JStr ''65a1b2c3d4e5f60718293a01'')]"
        "''ann@clinic.org''" "JObj [(''id'', JStr ''65a1b2c3d4e5f60718293a01'')]"
        example_env "''65a1b2c3d4e5f60718293a01''" example_store]
  by (simp add: ex_defs DELETE_def findOne_def)

subsection \<open>Identifiers the driver rejects\<close>

text \<open>
  Claim C9, as stated, at a \<^verbatim>\<open>PATCH\<close> without a title: the id is not empty and the
  constructor rejects it, yet the handler answers 400 and throws nothing.
\<close>

theorem malformed_id_without_title_counterexample:
  "caller (request_from ''ann@clinic.org'' [(''id'', JStr ''not-an-id'')]) = Some ''ann@clinic.org''
   \<and> truthy (get (JObj [(''id'', JStr ''not-an-id'')]) ''id'')
   \<and> newObjectId example_env (get (JObj [(''id'', JStr ''not-an-id'')]) ''id'') = None
   \<and> PATCH example_env (request_from ''ann@clinic.org'' [(''id'', JStr ''not-an-id'')])
       example_store
     = (Response 400 (ErrorMessage ''Missing required fields.''), example_store)"
  by (simp add: ex_defs PATCH_def)

text \<open>
  Claim C9, amended. For an authenticated request whose id is not empty and is rejected by
  the \<^verbatim>\<open>ObjectId\<close> constructor, \<^verbatim>\<open>DELETE\<close> throws, and so does a \<^verbatim>\<open>PATCH\<close> that
  carries a title; a \<^verbatim>\<open>PATCH\<close> without a title is answered 400 before the constructor is
  reached. The store is unchanged in each case.
\<close>

theorem malformed_id_throws:
  assumes "caller r = Some email" and "body r = Some b"
    and "truthy (get b ''id'')" and "newObjectId e (get b ''id'') = None"
  shows "DELETE e r s = (Thrown BSONError, s)
         \<and> PATCH e r s =
             (if truthy (get b ''title'') then Thrown BSONError
              else Response 400 (ErrorMessage ''Missing required fields.''), s)"
proof -
  have "\<not> nullish b" using assms(3) by (rule truthy_get_not_nullish)
  then show ?thesis using assms by (simp add: DELETE_def PATCH_def)
qed

theorem malformed_id_throws_witness:
  "DELETE example_env (request_from ''ann@clinic.org'' [(''id'', JStr ''not-an-id'')])
       example_store = (Thrown BSONError, example_store)
   \<and> PATCH example_env
       (request_from ''ann@clinic.org'' [(''id'', JStr ''not-an-id''), (''title'', JStr ''t'')])
       example_store = (Thrown BSONError, example_store)"
  using malformed_id_throws
    [of "request_from ''ann@clinic.org'' [(''id'', JStr ''not-an-id'')]"
        "''ann@clinic.org''" "JObj [(''id'', JStr ''not-an-id'')]" example_env example_store]
    malformed_id_throws
    [of "request_from ''ann@clinic.org'' [(''id'', JStr ''not-an-id''), (''title'', JStr ''t'')]"
        "''ann@clinic.org''" "JObj [(''id'', JStr ''not-an-id''), (''title'', JStr ''t'')]"
        example_env example_store]
  by (simp add: ex_defs)

subsection \<open>Creating\<close>

text \<open>
  Claim C4, as stated, at a manual draft that also carries \<^verbatim>\<open>ocrText\<close>: the note is
  created and its \<^verbatim>\<open>ocrText\<close> is stored as sent, so the stored note breaks the invariant.
\<close>

theorem POST_stores_inapplicable_field_counterexample:
  "fst (POST example_env
          (request_from ''ann@clinic.org''
             [(''title'', JStr ''Visit 2''), (''source'', JStr ''manual''),
              (''ocrText'', JStr ''left over'')]) [])
     = Response 200 (Id ''65a1b2c3d4e5f60718293a03'')
   \<and> map source (snd (POST example_env
          (request_from ''ann@clinic.org''
             [(''title'', JStr ''Visit 2''), (''source'', JStr ''manual''),
              (''ocrText'', JStr ''left over'')]) [])) = [JStr ''manual'']
   \<and> map ocrText (snd (POST example_env
          (request_from ''ann@clinic.org''
             [(''title'', JStr ''Visit 2''), (''source'', JStr ''manual''),
              (''ocrText'', JStr ''left over'')]) [])) = [JStr ''left over'']
   \<and> map inactive_field_empty (snd (POST example_env
          (request_from ''ann@clinic.org''
             [(''title'', JStr ''Visit 2''), (''source'', JStr ''manual''),
              (''ocrText'', JStr ''left over'')]) [])) = [False]"
  by (simp add: ex_defs POST_def inactive_field_empty_def)

text \<open>
  Claim C4, amended. For an authenticated \<^verbatim>\<open>POST\<close> whose body is not \<^verbatim>\<open>null\<close>: a
  missing (falsy) title or source is answered 400 and the store is unchanged; otherwise the
  new note stores both \<^verbatim>\<open>contentHtml\<close> and \<^verbatim>\<open>ocrText\<close> as supplied (the empty string
  when absent or \<^verbatim>\<open>null\<close>), whatever the source. On a store with unique ids where every
  note satisfies the invariant, \<^verbatim>\<open>PATCH\<close> and \<^verbatim>\<open>DELETE\<close> keep it, and \<^verbatim>\<open>POST\<close> keeps
  it when the draft leaves the field that does not belong to its source absent, \<^verbatim>\<open>null\<close>
  or empty.
\<close>

theorem POST_validates_and_stores_what_is_supplied:
  assumes "caller r = Some email" and "body r = Some b" and "\<not> nullish b"
  shows "(\<not> truthy (get b ''title'') \<or> \<not> truthy (get b ''source'') \<longrightarrow>
            POST e r s = (Response 400 (ErrorMessage ''Missing required fields.''), s))
         \<and> (truthy (get b ''title'') \<and> truthy (get b ''source'')
              \<and> insertedId e \<notin> set (map note_id s) \<longrightarrow>
              (\<exists>n. POST e r s = (Response 200 (Id (insertedId e)), s @ [n])
                 \<and> doctorId n = email \<and> title n = get b ''title''
                 \<and> source n = get b ''source''
                 \<and> contentHtml n = coalesce (get b ''contentHtml'') (JStr '''')
                 \<and> ocrText n = coalesce (get b ''ocrText'') (JStr '''')
                 \<and> createdAt n = now e))
         \<and> (unique_ids s \<and> (\<forall>n \<in> set s. inactive_field_empty n) \<longrightarrow>
              (\<forall>n \<in> set (snd (PATCH e' r' s)). inactive_field_empty n)
              \<and> (\<forall>n \<in> set (snd (DELETE e' r' s)). inactive_field_empty n)
              \<and> ((if get b ''source'' = JStr ''manual''
                   then coalesce (get b ''ocrText'') (JStr '''') = JStr ''''
                   else coalesce (get b ''contentHtml'') (JStr '''') = JStr '''') \<longrightarrow>
                  (\<forall>n \<in> set (snd (POST e r s)). inactive_field_empty n)))"
proof -
  have a: "\<not> truthy (get b ''title'') \<or> \<not> truthy (get b ''source'') \<longrightarrow>
            POST e r s = (Response 400 (ErrorMessage ''Missing required fields.''), s)"
    using assms by (simp add: POST_def)
  have b: "truthy (get b ''title'') \<and> truthy (get b ''source'')
              \<and> insertedId e \<notin> set (map note_id s) \<longrightarrow>
              (\<exists>n. POST e r s = (Response 200 (Id (insertedId e)), s @ [n])
                 \<and> doctorId n = email \<and> title n = get b ''title''
                 \<and> source n = get b ''source''
                 \<and> contentHtml n = coalesce (get b ''contentHtml'') (JStr '''')
                 \<and> ocrText n = coalesce (get b ''ocrText'') (JStr '''')
                 \<and> createdAt n = now e)"
    using assms by (simp add: POST_def)
  have c: "(\<forall>n \<in> set (snd (PATCH e' r' s)). inactive_field_empty n)
              \<and> (\<forall>n \<in> set (snd (DELETE e' r' s)). inactive_field_empty n)
              \<and> ((if get b ''source'' = JStr ''manual''
                   then coalesce (get b ''ocrText'') (JStr '''') = JStr ''''
                   else coalesce (get b ''contentHtml'') (JStr '''') = JStr '''') \<longrightarrow>
                  (\<forall>n \<in> set (snd (POST e r s)). inactive_field_empty n))"
    if u: "unique_ids s" and i: "\<forall>n \<in> set s. inactive_field_empty n"
  proof (intro conjI impI)
    show "\<forall>n \<in> set (snd (PATCH e' r' s)). inactive_field_empty n"
      using u i by (rule PATCH_keeps_invariant)
    show "\<forall>n \<in> set (snd (DELETE e' r' s)). inactive_field_empty n"
      using i DELETE_store_subset [of e' r' s] by blast
    assume "if get b ''source'' = JStr ''manual''
            then coalesce (get b ''ocrText'') (JStr '''') = JStr ''''
            else coalesce (get b ''contentHtml'') (JStr '''') = JStr ''''"
    then show "\<forall>n \<in> set (snd (POST e r s)). inactive_field_empty n"
      using i assms by (auto simp: POST_def inactive_field_empty_def split: if_splits)
  qed
  from a b c show ?thesis by blast
qed

theorem POST_validates_and_stores_what_is_supplied_witness:
  "POST example_env (request_from ''ann@clinic.org'' [(''source'', JStr ''manual'')])
       example_store
     = (Response 400 (ErrorMessage ''Missing required fields.''), example_store)
   \<and> (\<exists>n. POST example_env
            (request_from ''ann@clinic.org''
               [(''title'', JStr ''Visit 2''), (''source'', JStr ''manual''),
                (''contentHtml'', JStr ''<p>x</p>'')])
            example_store
          = (Response 200 (Id ''65a1b2c3d4e5f60718293a03''), example_store @ [n])
        \<and> contentHtml n = JStr ''<p>x</p>'' \<and> ocrText n = JStr '''')
   \<and> list_all inactive_field_empty (snd (PATCH example_env
            (request_from ''bob@clinic.org''
               [(''id'', JStr ''65a1b2c3d4e5f60718293a02''), (''title'', JStr ''Lab 2''),
                (''contentHtml'', JStr ''<b>no</b>'')])
            example_store))
   \<and> list_all inactive_field_empty (snd (POST example_env
            (request_from ''ann@clinic.org''
               [(''title'', JStr ''Visit 2''), (''source'', JStr ''manual''),
                (''contentHtml'', JStr ''<p>x</p>'')])
            example_store))"
proof -
  let ?bad = "[(''source'', JStr ''manual'')]"
  let ?good = "[(''title'', JStr ''Visit 2''), (''source'', JStr ''manual''),
                (''contentHtml'', JStr ''<p>x</p>'')]"
  let ?r' = "request_from ''bob@clinic.org''
               [(''id'', JStr ''65a1b2c3d4e5f60718293a02''), (''title'', JStr ''Lab 2''),
                (''contentHtml'', JStr ''<b>no</b>'')]"
  have c: "caller (request_from ''ann@clinic.org'' kvs) = Some ''ann@clinic.org''"
    and b: "body (request_from ''ann@clinic.org'' kvs) = Some (JObj kvs)" for kvs
    by (simp_all add: request_from_def)
  have u: "unique_ids example_store \<and> (\<forall>n \<in> set example_store. inactive_field_empty n)"
    by (simp add: ex_defs inactive_field_empty_def)
  have f: "insertedId example_env \<notin> set (map note_id example_store)"
    by (simp add: ex_defs)
  note bad = POST_validates_and_stores_what_is_supplied
    [OF c b, of ?bad example_env example_store example_env ?r']
  note good = POST_validates_and_stores_what_is_supplied
    [OF c b, of ?good example_env example_store example_env ?r']
  have 1: "POST example_env (request_from ''ann@clinic.org'' ?bad) example_store
     = (Response 400 (ErrorMessage ''Missing required fields.''), example_store)"
    using bad by simp
  have 2: "\<exists>n. POST example_env (request_from ''ann@clinic.org'' ?good) example_store
          = (Response 200 (Id ''65a1b2c3d4e5f60718293a03''), example_store @ [n])
        \<and> contentHtml n = JStr ''<p>x</p>'' \<and> ocrText n = JStr ''''"
    using good f by (auto simp: example_env_def)
  have 3: "list_all inactive_field_empty (snd (PATCH example_env ?r' example_store))"
    using good u by (simp add: list_all_iff)
  have 4: "list_all inactive_field_empty
             (snd (POST example_env (request_from ''ann@clinic.org'' ?good) example_store))"
    using good u by (simp add: list_all_iff)
  from 1 2 3 4 show ?thesis by blast
qed

section \<open>Properties of the scan pipeline\<close>

subsection \<open>Running segments\<close>

lemma run_append: "run (xs @ ys) st = run ys (run xs st)"
  by (simp add: run_def)

lemma run_Cons: "run (x # xs) st = run xs (run_segment x st)"
  by (simp add: run_def)

lemma run_Nil: "run [] st = st"
  by (simp add: run_def)

lemma run_segment_settle:
  "run_segment [SetOcrText t, SetOcrBusy False] st = st\<lparr>ocrTextState := t, ocrBusy := False\<rparr>"
  by (simp add: run_segment_def)

lemma run_recognizing:
  "run (recognizing j) st =
     (run (map logger (logger_messages j)) st)
       \<lparr>ocrTextState := (case runOcrOnImage_settles j of
                           Resolved t \<Rightarrow> trim t | Rejected \<Rightarrow> fallback),
        ocrBusy := False\<rparr>"
  by (simp add: recognizing_def run_append run_Cons run_Nil run_segment_settle caught_def
           split: settled.splits)


lemma recognizer_inputs_append:
  "recognizer_inputs (xs @ ys) = recognizer_inputs xs @ recognizer_inputs ys"
  by (induction xs rule: recognizer_inputs.induct) simp_all


lemma recognizer_inputs_loggers: "recognizer_inputs (concat (map logger ms)) = []"
  by (induction ms) (simp_all add: logger_def recognizer_inputs_append)


lemma recognizer_inputs_recognizing: "recognizer_inputs (concat (recognizing j)) = []"
  by (simp add: recognizing_def recognizer_inputs_append recognizer_inputs_loggers caught_def
           split: settled.splits)

subsection \<open>Trimming\<close>

lemma rev_split_dropWhile:
  "xs = rev (dropWhile P (rev xs)) @ rev (takeWhile P (rev xs))"
  by (metis rev_append rev_rev_ident takeWhile_dropWhile_id)

lemma trim_decomposition:
  "\<exists>pre post. t = pre @ trim t @ post \<and> list_all isWhiteSpace pre \<and> list_all isWhiteSpace post"
proof -
  let ?u = "dropWhile isWhiteSpace t"
  let ?pre = "takeWhile isWhiteSpace t"
  let ?post = "rev (takeWhile isWhiteSpace (rev ?u))"
  have u: "?u = trim t @ ?post"
    unfolding trim_def by (rule rev_split_dropWhile)
  have "t = ?pre @ ?u" by simp
  with u have "t = ?pre @ trim t @ ?post" by simp
  moreover have "list_all isWhiteSpace ?pre"
    by (auto simp: list_all_iff dest: set_takeWhileD)
  moreover have "list_all isWhiteSpace ?post"
    by (auto simp: list_all_iff dest: set_takeWhileD)
  ultimately show ?thesis by blast
qed

lemma trim_ends:
  assumes "trim t \<noteq> []"
  shows "\<not> isWhiteSpace (hd (trim t)) \<and> \<not> isWhiteSpace (last (trim t))"
proof -
  let ?u = "dropWhile isWhiteSpace t"
  let ?v = "dropWhile isWhiteSpace (rev ?u)"
  have v: "?v \<noteq> []" using assms by (simp add: trim_def)
  then have "\<not> isWhiteSpace (hd ?v)" by (rule hd_dropWhile)
  moreover have "last (trim t) = hd ?v"
    using v by (simp add: trim_def last_rev)
  ultimately have l: "\<not> isWhiteSpace (last (trim t))" by simp
  have u: "?u = trim t @ rev (takeWhile isWhiteSpace (rev ?u))"
    unfolding trim_def by (rule rev_split_dropWhile)
  then have "?u \<noteq> []" using assms by (metis append_is_Nil_conv)
  then have "\<not> isWhiteSpace (hd ?u)" by (rule hd_dropWhile)
  moreover have "hd ?u = hd (trim t)"
    using u assms by (metis hd_append2)
  ultimately show ?thesis using l by simp
qed

subsection \<open>One run of the handler\<close>

lemma run_handleScanFile:
  "ocrBusy (run (handleScanFile file j) st) = False \<and>
   ocrTextState (run (handleScanFile file j) st) =
     (case fileToBase64_settles j of
        Rejected \<Rightarrow> fallback
      | Resolved p \<Rightarrow>
          if file_type file = ''application/pdf'' \<and> renderPdfToImage_settles j = Rejected
          then fallback
          else (case runOcrOnImage_settles j of Resolved t \<Rightarrow> trim t | Rejected \<Rightarrow> fallback))"
  by (simp add: handleScanFile_def run_Cons run_Nil run_recognizing caught_def
        run_segment_settle split: settled.splits)


lemma recognizer_inputs_handleScanFile:
  "recognizer_inputs (concat (handleScanFile file j)) =
     (case fileToBase64_settles j of
        Rejected \<Rightarrow> []
      | Resolved p \<Rightarrow>
          if file_type file = ''application/pdf''
          then (case renderPdfToImage_settles j of
                  Rejected \<Rightarrow> [] | Resolved ocrSource \<Rightarrow> [DataUrl ocrSource])
          else [Blob file])"
  by (simp add: handleScanFile_def recognizer_inputs_append recognizer_inputs_recognizing
        caught_def split: settled.splits)

lemma start_segment:
  "run_segment (hd (handleScanFile file j)) st =
     \<lparr>scanFile = Some file, scanPreview = None, ocrTextState = [], ocrProgress = Num 0,
      ocrBusy = True\<rparr>"
  by (simp add: handleScanFile_def run_segment_def)

lemma handleScanFile_not_Nil: "handleScanFile file j \<noteq> []"
  by (simp add: handleScanFile_def)

lemma last_recognizing:
  "\<exists>t. last (recognizing j) = [SetOcrText t, SetOcrBusy False]"
  by (simp add: recognizing_def caught_def split: settled.splits)

lemma recognizing_not_Nil: "recognizing j \<noteq> []"
  by (simp add: recognizing_def)

lemma last_handleScanFile:
  "\<exists>t. last (handleScanFile file j) = [SetOcrText t, SetOcrBusy False]"
  using last_recognizing [of j]
  by (auto simp: handleScanFile_def caught_def recognizing_not_Nil split: settled.splits)

lemma run_last:
  assumes "xs \<noteq> []" and "last xs = [SetOcrText t, SetOcrBusy False]"
  shows "ocrTextState (run xs st) = t \<and> ocrBusy (run xs st) = False"
proof -
  have "xs = butlast xs @ [last xs]" using assms(1) by simp
  then have "run xs st = run_segment (last xs) (run (butlast xs) st)"
    by (metis run_append run_Cons run_Nil)
  then show ?thesis using assms(2) by (simp add: run_segment_settle)
qed

subsection \<open>Rounding\<close>

declare binade_up.simps [simp del] binade_down.simps [simp del]


















lemma floor_numeral_divide: "\<lfloor>(numeral a :: rat) / numeral b\<rfloor> = numeral a div numeral b"
  using floor_divide_of_int_eq [of "numeral a" "numeral b", where ?'a = rat] by simp

lemmas double_eval = round_double_def round_magnitude_def binade_def binade_up.simps
  binade_down.simps roundTiesToEven_def Let_def floor_numeral_divide

text \<open>
  The double nearest to 0.015 lies below it, its exact hundredfold lies below 1.5, and the
  product as a double is 1.5: the published percentage is 2.
\<close>

lemma percent_of_0_015:
  "times100 (Num (8646911284551352 / 2 ^ 59)) = Num (3 / 2)
   \<and> Math_round (times100 (Num (8646911284551352 / 2 ^ 59))) = Num 2"
  by (simp add: double_eval)




subsection \<open>Interleavings\<close>

lemma append_in_shuffles: "ys @ xs \<in> shuffles xs ys"
proof (induction ys)
  case Nil
  then show ?case by simp
next
  case (Cons y ys)
  then show ?case by (simp add: Cons_in_shuffles_rightI)
qed

lemma hd_first_in_shuffles: "xs \<noteq> [] \<Longrightarrow> hd xs # ys @ tl xs \<in> shuffles xs ys"
  using append_in_shuffles [of ys "tl xs"] Cons_in_shuffles_leftI [of "ys @ tl xs" "tl xs" ys "hd xs"]
  by simp

lemma last_shuffles:
  "zs \<in> shuffles xs ys \<Longrightarrow> zs \<noteq> [] \<Longrightarrow>
     (xs \<noteq> [] \<and> last zs = last xs) \<or> (ys \<noteq> [] \<and> last zs = last ys)"
proof (induction xs ys arbitrary: zs rule: shuffles.induct)
  case (1 ys)
  then show ?case by simp
next
  case (2 x xs)
  then show ?case by simp
next
  case (3 x xs y ys)
  from "3.prems"(1) consider
      zs' where "zs = x # zs'" "zs' \<in> shuffles xs (y # ys)"
    | zs' where "zs = y # zs'" "zs' \<in> shuffles (x # xs) ys"
    by auto
  then show ?case
  proof cases
    case 1
    then have ne: "zs' \<noteq> []" by auto
    from "3.IH"(1) [OF 1(2) ne] 1(1) ne show ?thesis by auto
  next
    case 2
    then have ne: "zs' \<noteq> []" by auto
    from "3.IH"(2) [OF 2(2) ne] 2(1) ne show ?thesis by auto
  qed
qed

subsection \<open>The claims about the pipeline\<close>

lemmas run_defs = handleScanFile_def recognizing_def resolving_def rejecting_def photo_def
  letter_def memo_def erratic_def logger_def caught_def run_def run_segment_def
  initial_state_def

text \<open>
  Claim C5. Every run of \<^verbatim>\<open>handleScanFile\<close>, whatever the awaited calls do, ends with
  \<^verbatim>\<open>ocrBusy\<close> false and a transcript set: when reading the file, rendering the PDF or the
  recognizer rejects, the transcript is exactly the string
  \<^verbatim>\<open>Unable to extract text. Please try a clearer scan.\<close>; when every call resolves, it is
  the recognized text trimmed, that is, the text without a leading and a trailing run of
  white space.
\<close>

theorem handleScanFile_settles_transcript:
  "ocrBusy (run (handleScanFile f j) st) = False
   \<and> (fileToBase64_settles j = Rejected
        \<or> (file_type f = ''application/pdf'' \<and> renderPdfToImage_settles j = Rejected)
        \<or> runOcrOnImage_settles j = Rejected \<longrightarrow>
      ocrTextState (run (handleScanFile f j) st)
        = map of_char ''Unable to extract text. Please try a clearer scan.'')
   \<and> (fileToBase64_settles j \<noteq> Rejected
        \<and> (file_type f = ''application/pdf'' \<longrightarrow> renderPdfToImage_settles j \<noteq> Rejected)
        \<and> runOcrOnImage_settles j = Resolved t \<longrightarrow>
      ocrTextState (run (handleScanFile f j) st) = trim t)
   \<and> (\<exists>pre post. t = pre @ trim t @ post
          \<and> list_all isWhiteSpace pre \<and> list_all isWhiteSpace post)
   \<and> (trim t \<noteq> [] \<longrightarrow> \<not> isWhiteSpace (hd (trim t)) \<and> \<not> isWhiteSpace (last (trim t)))"
proof -
  note r = run_handleScanFile [of f j st]
  have b: "ocrBusy (run (handleScanFile f j) st) = False"
    using r by simp
  have fb: "fileToBase64_settles j = Rejected
        \<or> (file_type f = ''application/pdf'' \<and> renderPdfToImage_settles j = Rejected)
        \<or> runOcrOnImage_settles j = Rejected \<longrightarrow>
      ocrTextState (run (handleScanFile f j) st)
        = map of_char ''Unable to extract text. Please try a clearer scan.''"
    using r by (auto simp: fallback_def split: settled.splits)
  have d: "fileToBase64_settles j \<noteq> Rejected
        \<and> (file_type f = ''application/pdf'' \<longrightarrow> renderPdfToImage_settles j \<noteq> Rejected)
        \<and> runOcrOnImage_settles j = Resolved t \<longrightarrow>
      ocrTextState (run (handleScanFile f j) st) = trim t"
    using r by (auto split: settled.splits)
  from b fb d trim_decomposition [of t] trim_ends [of t] show ?thesis by blast
qed

theorem handleScanFile_settles_transcript_witness:
  "ocrBusy (run (handleScanFile photo (resolving (map of_char ''  hi ''))) initial_state) = False
   \<and> ocrTextState (run (handleScanFile photo (resolving (map of_char ''  hi ''))) initial_state)
       = map of_char ''hi''
   \<and> ocrTextState (run (handleScanFile letter rejecting) initial_state)
       = map of_char ''Unable to extract text. Please try a clearer scan.''"
proof -
  have "ocrTextState (run (handleScanFile photo (resolving (map of_char ''  hi ''))) initial_state)
          = trim (map of_char ''  hi '')"
    using handleScanFile_settles_transcript
      [of photo "resolving (map of_char ''  hi '')" initial_state "map of_char ''  hi ''"]
    by (simp add: resolving_def photo_def)
  moreover have "ocrBusy (run (handleScanFile photo (resolving (map of_char ''  hi '')))
                   initial_state) = False"
    using handleScanFile_settles_transcript
      [of photo "resolving (map of_char ''  hi '')" initial_state "map of_char ''  hi ''"]
    by simp
  moreover have "ocrTextState (run (handleScanFile letter rejecting) initial_state)
       = map of_char ''Unable to extract text. Please try a clearer scan.''"
    using handleScanFile_settles_transcript [of letter rejecting initial_state "[]"]
    by (simp add: rejecting_def)
  ultimately show ?thesis by (simp add: trim_def isWhiteSpace_def)
qed




text \<open>
  Claim C7, as stated, at a plain-text file: its type is neither an image type nor PDF,
  and the file is handed to the recognizer.
\<close>

theorem unsupported_type_reaches_recognizer_counterexample:
  "accepted_type (file_type memo) = False
   \<and> recognizer_inputs (concat (handleScanFile memo (resolving []))) = [Blob memo]"
  by (simp add: run_defs accepted_type_def)

text \<open>
  Claim C7, amended. A file whose declared type is not PDF, image or not, is handed to the
  recognizer as it is once its preview has been read, and not at all when reading it
  fails; when the recognizer rejects it, the job ends with the fallback transcript and
  \<^verbatim>\<open>ocrBusy\<close> false.
\<close>

theorem non_pdf_file_is_recognized_as_is:
  assumes "file_type f \<noteq> ''application/pdf''"
  shows "(fileToBase64_settles j = Rejected \<longrightarrow>
            recognizer_inputs (concat (handleScanFile f j)) = [])
         \<and> (fileToBase64_settles j \<noteq> Rejected \<longrightarrow>
            recognizer_inputs (concat (handleScanFile f j)) = [Blob f])
         \<and> (runOcrOnImage_settles j = Rejected \<longrightarrow>
            ocrTextState (run (handleScanFile f j) st) = fallback
            \<and> ocrBusy (run (handleScanFile f j) st) = False)"
  using assms recognizer_inputs_handleScanFile [of f j] run_handleScanFile [of f j st]
  by (auto split: settled.splits)

theorem non_pdf_file_is_recognized_as_is_witness:
  "recognizer_inputs (concat (handleScanFile memo rejecting)) = [Blob memo]
   \<and> ocrTextState (run (handleScanFile memo rejecting) initial_state) = fallback
   \<and> ocrBusy (run (handleScanFile memo rejecting) initial_state) = False"
  using non_pdf_file_is_recognized_as_is [of memo rejecting initial_state]
  by (simp add: memo_def rejecting_def)

lemma stale_schedule_interleaves: "stale_schedule \<in> shuffles older_run newer_run"
  unfolding stale_schedule_def by (rule hd_first_in_shuffles) (simp add: older_run_def handleScanFile_not_Nil)

text \<open>
  Claim C8, as stated, at two overlapping jobs: the letter is selected while the photo's
  job is in flight, the letter's job settles first, and the photo's result, settling
  later, becomes the transcript shown for the letter.
\<close>

theorem stale_result_overwrites_counterexample:
  "stale_schedule \<in> shuffles older_run newer_run
   \<and> take 2 stale_schedule = [hd older_run, hd newer_run]
   \<and> scanFile (run stale_schedule initial_state) = Some letter
   \<and> ocrTextState (run newer_run initial_state) = map of_char ''new''
   \<and> ocrTextState (run stale_schedule initial_state) = map of_char ''old''"
proof -
  have 1: "take 2 stale_schedule = [hd older_run, hd newer_run]"
    by (simp add: stale_schedule_def older_run_def newer_run_def handleScanFile_def)
  have 2: "scanFile (run stale_schedule initial_state) = Some letter"
    by (simp add: stale_schedule_def older_run_def newer_run_def run_defs)
  have 3: "ocrTextState (run newer_run initial_state) = map of_char ''new''"
    using run_handleScanFile [of letter "resolving (map of_char ''new'')" initial_state]
    by (simp add: newer_run_def resolving_def letter_def trim_def isWhiteSpace_def)
  have 4: "ocrTextState (run stale_schedule initial_state) = trim (map of_char ''old'')"
    by (simp add: stale_schedule_def older_run_def newer_run_def run_defs)
  from stale_schedule_interleaves 1 2 3 4 show ?thesis by (simp add: trim_def isWhiteSpace_def)
qed

text \<open>
  Claim C8, amended. Selecting a file resets the state at once (the file, no preview, an
  empty transcript, progress 0, busy). Jobs are neither cancelled nor told apart: in every
  interleaving of two jobs, the state ends not busy, and the transcript is the one of the
  job whose last segment runs last, be it the newer or the superseded one.
\<close>

theorem last_settling_job_sets_transcript:
  assumes "sched \<in> shuffles (handleScanFile fA jA) (handleScanFile fB jB)"
  shows "run_segment (hd (handleScanFile fB jB)) st =
           \<lparr>scanFile = Some fB, scanPreview = None, ocrTextState = [], ocrProgress = Num 0,
            ocrBusy = True\<rparr>
         \<and> ocrBusy (run sched st) = False
         \<and> (last sched = last (handleScanFile fA jA)
              \<and> ocrTextState (run sched st) = ocrTextState (run (handleScanFile fA jA) st)
            \<or> last sched = last (handleScanFile fB jB)
              \<and> ocrTextState (run sched st) = ocrTextState (run (handleScanFile fB jB) st))"
proof -
  let ?A = "handleScanFile fA jA" and ?B = "handleScanFile fB jB"
  have ne: "sched \<noteq> []"
    using assms handleScanFile_not_Nil [of fA jA] by auto
  from last_shuffles [OF assms ne]
  have l: "last sched = last ?A \<or> last sched = last ?B" by blast
  obtain tA where tA: "last ?A = [SetOcrText tA, SetOcrBusy False]"
    using last_handleScanFile by blast
  obtain tB where tB: "last ?B = [SetOcrText tB, SetOcrBusy False]"
    using last_handleScanFile by blast
  have rA: "ocrTextState (run ?A st) = tA"
    using run_last [OF handleScanFile_not_Nil tA] by simp
  have rB: "ocrTextState (run ?B st) = tB"
    using run_last [OF handleScanFile_not_Nil tB] by simp
  from l have "ocrBusy (run sched st) = False
         \<and> (last sched = last ?A \<and> ocrTextState (run sched st) = ocrTextState (run ?A st)
            \<or> last sched = last ?B \<and> ocrTextState (run sched st) = ocrTextState (run ?B st))"
  proof
    assume a: "last sched = last ?A"
    then have "last sched = [SetOcrText tA, SetOcrBusy False]" using tA by simp
    from run_last [OF ne this, of st] a rA show ?thesis by simp
  next
    assume b: "last sched = last ?B"
    then have "last sched = [SetOcrText tB, SetOcrBusy False]" using tB by simp
    from run_last [OF ne this, of st] b rB show ?thesis by simp
  qed
  then show ?thesis by (simp add: start_segment)
qed

theorem last_settling_job_sets_transcript_witness:
  "stale_schedule \<in> shuffles older_run newer_run
   \<and> ocrBusy (run stale_schedule initial_state) = False
   \<and> run_segment (hd newer_run) initial_state =
       \<lparr>scanFile = Some letter, scanPreview = None, ocrTextState = [], ocrProgress = Num 0,
        ocrBusy = True\<rparr>"
  using stale_schedule_interleaves
    last_settling_job_sets_transcript
      [of stale_schedule photo "resolving (map of_char ''old'')" letter
          "resolving (map of_char ''new'')" initial_state]
  by (simp add: older_run_def newer_run_def)

end
